theory Spec2Isabelle
  imports Complex_Main "HOL-Library.Word"
begin

section \<open>JavaScript values of a request body\<close>

text \<open>
  The handlers of the server read fields of \<open>req.body\<close>, the JSON document that
  \<open>express.json()\<close> parsed. A field is absent (\<open>undefined\<close>), \<open>null\<close>, a boolean, a
  number or a string; nested objects and arrays are outside the model.

  A finite JavaScript number is represented by the rational that its decimal rendering
  denotes, so integers are themselves and comparisons are exact. The rounding of binary64
  arithmetic is not represented: \<open>-\<close> and \<open>*\<close> below are exact. \<open>NaN\<close> is a value of
  its own; the infinities are outside the model.

  Strings are sequences of code units below 256 (the Latin-1 part of UTF-16), which is
  what \<open>char\<close> holds.
\<close>

datatype jsval = JUndefined | JNull | JBool bool | JNum rat | JStr string

datatype jsnum = NaN | Fin rat

text \<open>
  Two conversions of strings belong to the platform and not to this repository: the
  \<open>StringToNumber\<close> of ECMAScript, which \<open>Number(s)\<close> applies to a string, and the
  input function of PostgreSQL's \<open>integer\<close> type, which reads a text parameter. Both
  are parameters of the model.
\<close>

record host =
  StringToNumber :: "string \<Rightarrow> jsnum"
  int4in :: "string \<Rightarrow> 32 word option"

text \<open>\<open>!v\<close> is \<open>\<not> truthy v\<close>.\<close>

fun truthy :: "jsval \<Rightarrow> bool" where
  "truthy JUndefined = False"
| "truthy JNull = False"
| "truthy (JBool b) = b"
| "truthy (JNum r) = (r \<noteq> 0)"
| "truthy (JStr s) = (s \<noteq> [])"

text \<open>\<open>a || b\<close>\<close>

definition js_or :: "jsval \<Rightarrow> jsval \<Rightarrow> jsval" where
  "js_or a b = (if truthy a then a else b)"

text \<open>\<open>Number(v)\<close>\<close>

fun Number :: "host \<Rightarrow> jsval \<Rightarrow> jsnum" where
  "Number h JUndefined = NaN"
| "Number h JNull = Fin 0"
| "Number h (JBool b) = Fin (if b then 1 else 0)"
| "Number h (JNum r) = Fin r"
| "Number h (JStr s) = StringToNumber h s"

text \<open>\<open>!n\<close> for a number: \<open>NaN\<close> and zero are falsy.\<close>

fun num_truthy :: "jsnum \<Rightarrow> bool" where
  "num_truthy NaN = False"
| "num_truthy (Fin r) = (r \<noteq> 0)"

text \<open>\<open>a < b\<close> and \<open>a <= b\<close>: false as soon as an operand is \<open>NaN\<close>.\<close>

fun js_less :: "jsnum \<Rightarrow> jsnum \<Rightarrow> bool" where
  "js_less (Fin a) (Fin b) = (a < b)"
| "js_less _ _ = False"

fun js_le :: "jsnum \<Rightarrow> jsnum \<Rightarrow> bool" where
  "js_le (Fin a) (Fin b) = (a \<le> b)"
| "js_le _ _ = False"

text \<open>\<open>a - b\<close> and \<open>a * b\<close>\<close>

fun js_minus :: "jsnum \<Rightarrow> jsnum \<Rightarrow> jsnum" where
  "js_minus (Fin a) (Fin b) = Fin (a - b)"
| "js_minus _ _ = NaN"

fun js_times :: "jsnum \<Rightarrow> jsnum \<Rightarrow> jsnum" where
  "js_times (Fin a) (Fin b) = Fin (a * b)"
| "js_times _ _ = NaN"

subsection \<open>\<open>trim\<close> and \<open>toLowerCase\<close>\<close>

text \<open>
  The white space and line terminators of ECMAScript below 256: TAB, LF, VT, FF, CR,
  SPACE and NO-BREAK SPACE.
\<close>

definition is_space :: "char \<Rightarrow> bool" where
  "is_space c = (of_char c \<in> {9, 10, 11, 12, 13, 32, 160 :: nat})"

definition trim :: "string \<Rightarrow> string" where
  "trim s = rev (dropWhile is_space (rev (dropWhile is_space s)))"

text \<open>
  The upper-case letters below 256 are A to Z and the Latin-1 letters 192 to 222 without
  the multiplication sign 215; each has its lower case 32 further on.
\<close>

definition lower_char :: "char \<Rightarrow> char" where
  "lower_char c =
     (let n = of_char c :: nat
      in if (65 \<le> n \<and> n \<le> 90) \<or> (192 \<le> n \<and> n \<le> 222 \<and> n \<noteq> 215)
         then char_of (n + 32) else c)"

definition toLowerCase :: "string \<Rightarrow> string" where
  "toLowerCase s = map lower_char s"

section \<open>The store\<close>

text \<open>
  The tables are those of \<open>createUsersTable\<close>. An \<open>INTEGER\<close> column holds a 32-bit
  two's complement value. A \<open>NUMERIC(12,2)\<close> column holds a count of hundredths whose
  absolute value is below \<open>10 ^ 12\<close>, or PostgreSQL's numeric \<open>NaN\<close>. The columns that no
  modelled statement reads back (names, descriptions, timestamps, the serial \<open>id\<close> of
  an order) are not stored in the rows; their constraints are checked where a statement
  writes them.
\<close>

type_synonym int4 = "32 word"

datatype numeric = NumericNaN | Numeric int

record user =
  u_id :: int4
  u_email :: string
  u_role :: "string option"

record product =
  p_id :: int4
  p_user_id :: int4
  p_price :: numeric
  p_stock :: int4

record order =
  o_product_id :: int4
  o_buyer_email :: string
  o_quantity :: int4
  o_total_price :: numeric

record store =
  users :: "user list"
  products :: "product list"
  orders :: "order list"

subsection \<open>Values crossing the driver\<close>

text \<open>
  The driver hands a column of type \<open>INTEGER\<close> to JavaScript as a number and a
  \<open>NUMERIC\<close> column as a string, which the handler passes to \<open>Number\<close>.
\<close>

definition js_of_int4 :: "int4 \<Rightarrow> jsnum" where
  "js_of_int4 w = Fin (of_int (sint w))"

fun js_of_numeric :: "numeric \<Rightarrow> jsnum" where
  "js_of_numeric NumericNaN = NaN"
| "js_of_numeric (Numeric c) = Fin (of_int c / 100)"

text \<open>
  A parameter of a statement is sent as text and read by the input function of the
  column's type; \<open>None\<close> means that PostgreSQL rejects the statement. A number is an
  \<open>INTEGER\<close> when it is whole and within 32 bits.
\<close>

definition to_int4 :: "jsnum \<Rightarrow> int4 option" where
  "to_int4 n =
     (case n of
        NaN \<Rightarrow> None
      | Fin r \<Rightarrow>
          if r = of_int \<lfloor>r\<rfloor> \<and> - (2 ^ 31) \<le> \<lfloor>r\<rfloor> \<and> \<lfloor>r\<rfloor> < 2 ^ 31
          then Some (word_of_int \<lfloor>r\<rfloor>) else None)"

text \<open>
  A JavaScript value as an \<open>INTEGER\<close> parameter: \<open>null\<close> and \<open>undefined\<close> are sent as
  SQL \<open>NULL\<close> (the inner \<open>None\<close>), a boolean as \<open>true\<close> or \<open>false\<close>, which is no
  integer.
\<close>

fun param_int4 :: "host \<Rightarrow> jsval \<Rightarrow> int4 option option" where
  "param_int4 h JUndefined = Some None"
| "param_int4 h JNull = Some None"
| "param_int4 h (JBool b) = None"
| "param_int4 h (JNum r) = map_option Some (to_int4 (Fin r))"
| "param_int4 h (JStr s) = map_option Some (int4in h s)"

text \<open>
  \<open>NUMERIC(12,2)\<close>: the value is rounded to two decimals, half away from zero, and
  rejected when it then needs more than ten digits before the point. \<open>NaN\<close> is stored.
\<close>

definition round_half_away :: "rat \<Rightarrow> int" where
  "round_half_away r = (if 0 \<le> r then \<lfloor>r + 1 / 2\<rfloor> else - \<lfloor>- r + 1 / 2\<rfloor>)"

definition to_numeric_12_2 :: "jsnum \<Rightarrow> numeric option" where
  "to_numeric_12_2 n =
     (case n of
        NaN \<Rightarrow> Some NumericNaN
      | Fin r \<Rightarrow>
          let c = round_half_away (r * 100)
          in if \<bar>c\<bar> < 10 ^ 12 then Some (Numeric c) else None)"

text \<open>
  \<open>VARCHAR(n)\<close>: a text with a zero byte is rejected; a text longer than \<open>n\<close> is
  rejected unless the excess is all spaces, which are cut off.
\<close>

definition varchar :: "nat \<Rightarrow> string \<Rightarrow> string option" where
  "varchar n s =
     (if CHR 0x00 \<in> set s then None
      else if list_all (\<lambda>c. c = CHR 0x20) (drop n s) then Some (take n s)
      else None)"

section \<open>Requests and responses\<close>

text \<open>
  \<open>req.body\<close> is \<open>None\<close> when no body was parsed (\<open>undefined\<close>), else the object's
  fields, \<open>JUndefined\<close> where a field is absent. \<open>url\<close> is the path of the request.
\<close>

datatype http_method = GET | POST | OTHER

record request =
  req_method :: http_method
  url :: string
  body :: "(string \<Rightarrow> jsval) option"

text \<open>A JSON document of the payment provider.\<close>

datatype json =
  JsonAtom jsval
| JsonObject "(string \<times> json) list"
| JsonArray "json list"

text \<open>What a \<open>catch\<close> block reports in \<open>details\<close>.\<close>

datatype failure =
  TypeError
| StoreError
| FetchError string
| TokenFailed nat string
| SyntaxError

text \<open>
  The JSON sent back: \<open>{error}\<close>, \<open>{error, details}\<close>, the order with the remaining
  stock, the product, or the payment provider's own document.
\<close>

datatype payload =
  Error string
| ErrorDetails string failure
| OrderCreated order jsnum
| ProductCreated product
| Relay json

record response =
  status :: nat
  payload :: payload

section \<open>Purchase\<close>

text \<open>
  The statements that the handlers send, with their parameters.
  \<open>POST /api/purchase\<close> takes a connection from the pool before it reads the request
  and releases it when it is done; the log of a request holds the statements only.
\<close>

datatype statement =
  BEGIN
| SELECT_product_FOR_UPDATE jsval
| UPDATE_product_stock jsnum jsval
| INSERT_order jsval string jsnum jsnum
| COMMIT
| ROLLBACK
| SELECT_user string
| INSERT_product int4 jsval jsval jsnum jsval jsnum jsval

text \<open>\<open>SELECT id, price, stock FROM products WHERE id = $1 FOR UPDATE\<close>\<close>

definition select_product :: "host \<Rightarrow> jsval \<Rightarrow> store \<Rightarrow> product list option" where
  "select_product h productId st =
     (case param_int4 h productId of
        None \<Rightarrow> None
      | Some None \<Rightarrow> Some []
      | Some (Some i) \<Rightarrow> Some (filter (\<lambda>p. p_id p = i) (products st)))"

text \<open>\<open>UPDATE products SET stock = $1, updated_at = NOW() WHERE id = $2\<close>\<close>

definition update_stock :: "host \<Rightarrow> jsnum \<Rightarrow> jsval \<Rightarrow> store \<Rightarrow> store option" where
  "update_stock h newStock productId st =
     (case to_int4 newStock of
        None \<Rightarrow> None
      | Some n \<Rightarrow>
          (case param_int4 h productId of
             None \<Rightarrow> None
           | Some None \<Rightarrow> Some st
           | Some (Some i) \<Rightarrow>
               Some (st\<lparr>products :=
                 map (\<lambda>p. if p_id p = i then p\<lparr>p_stock := n\<rparr> else p) (products st)\<rparr>)))"

text \<open>
  \<open>INSERT INTO orders (product_id, buyer_email, quantity, total_price) VALUES ($1, $2,
  $3, $4) RETURNING ...\<close>: \<open>product_id\<close> is \<open>NOT NULL\<close> and references a product,
  \<open>buyer_email\<close> is a \<open>VARCHAR(255)\<close>, \<open>quantity\<close> an \<open>INTEGER\<close> with
  \<open>CHECK (quantity > 0)\<close>, \<open>total_price\<close> a \<open>NUMERIC(12,2)\<close>.
\<close>

definition insert_order ::
  "host \<Rightarrow> jsval \<Rightarrow> string \<Rightarrow> jsnum \<Rightarrow> jsnum \<Rightarrow> store \<Rightarrow> (order \<times> store) option" where
  "insert_order h productId email qty total' st =
     (case param_int4 h productId of
        Some (Some i) \<Rightarrow>
          (case varchar 255 email of
             None \<Rightarrow> None
           | Some e \<Rightarrow>
               (case to_int4 qty of
                  None \<Rightarrow> None
                | Some q \<Rightarrow>
                    (case to_numeric_12_2 total' of
                       None \<Rightarrow> None
                     | Some t \<Rightarrow>
                         if i \<in> p_id ` set (products st) \<and> 0 < sint q
                         then
                           let row = \<lparr>o_product_id = i, o_buyer_email = e,
                                      o_quantity = q, o_total_price = t\<rparr>
                           in Some (row, st\<lparr>orders := orders st @ [row]\<rparr>)
                         else None)))
      | _ \<Rightarrow> None)"

text \<open>The responses of the handler, under the names the specification gives them.\<close>

definition InvalidInput :: response where
  "InvalidInput = \<lparr>status = 400, payload = Error ''Missing required fields''\<rparr>"

definition NotFound :: response where
  "NotFound = \<lparr>status = 404, payload = Error ''Product not found''\<rparr>"

definition InsufficientStock :: response where
  "InsufficientStock = \<lparr>status = 400, payload = Error ''Insufficient stock''\<rparr>"

definition PurchaseFailed :: "failure \<Rightarrow> response" where
  "PurchaseFailed e = \<lparr>status = 500, payload = ErrorDetails ''Purchase failed'' e\<rparr>"

text \<open>
  \<open>app.post('/api/purchase', ...)\<close>. The result is the response, the store afterwards
  and the statements sent. A statement that PostgreSQL rejects throws; the \<open>catch\<close> block
  rolls back, so the store is the one before \<open>BEGIN\<close>. Reading a field of an absent
  body and calling \<open>trim\<close> on a value that is no string throw a \<open>TypeError\<close> into the
  same block.
\<close>

definition purchase :: "host \<Rightarrow> request \<Rightarrow> store \<Rightarrow> response \<times> store \<times> statement list" where
  "purchase h req st =
     (case body req of
        None \<Rightarrow> (PurchaseFailed TypeError, st, [ROLLBACK])
      | Some b \<Rightarrow>
          let productId = b ''productId'';
              buyerEmail = b ''buyerEmail'';
              quantity = b ''quantity'';
              qty = Number h (js_or quantity (JNum 1))
          in
          (case js_or buyerEmail (JStr []) of
             JStr s \<Rightarrow>
               let email = toLowerCase (trim s) in
               if \<not> truthy productId \<or> email = [] \<or> \<not> num_truthy qty \<or> js_le qty (Fin 0)
               then (InvalidInput, st, [])
               else
                 (case select_product h productId st of
                    None \<Rightarrow>
                      (PurchaseFailed StoreError, st,
                       [BEGIN, SELECT_product_FOR_UPDATE productId, ROLLBACK])
                  | Some [] \<Rightarrow>
                      (NotFound, st, [BEGIN, SELECT_product_FOR_UPDATE productId, ROLLBACK])
                  | Some (prod_row # _) \<Rightarrow>
                      if js_less (js_of_int4 (p_stock prod_row)) qty
                      then (InsufficientStock, st,
                            [BEGIN, SELECT_product_FOR_UPDATE productId, ROLLBACK])
                      else
                        let newStock = js_minus (js_of_int4 (p_stock prod_row)) qty in
                        (case update_stock h newStock productId st of
                           None \<Rightarrow>
                             (PurchaseFailed StoreError, st,
                              [BEGIN, SELECT_product_FOR_UPDATE productId,
                               UPDATE_product_stock newStock productId, ROLLBACK])
                         | Some st1 \<Rightarrow>
                             let total' = js_times (js_of_numeric (p_price prod_row)) qty in
                             (case insert_order h productId email qty total' st1 of
                                None \<Rightarrow>
                                  (PurchaseFailed StoreError, st,
                                   [BEGIN, SELECT_product_FOR_UPDATE productId,
                                    UPDATE_product_stock newStock productId,
                                    INSERT_order productId email qty total', ROLLBACK])
                              | Some (row, st2) \<Rightarrow>
                                  (\<lparr>status = 201, payload = OrderCreated row newStock\<rparr>, st2,
                                   [BEGIN, SELECT_product_FOR_UPDATE productId,
                                    UPDATE_product_stock newStock productId,
                                    INSERT_order productId email qty total', COMMIT]))))
           | _ \<Rightarrow> (PurchaseFailed TypeError, st, [ROLLBACK])))"

section \<open>Creating a product\<close>

text \<open>
  \<open>SELECT id FROM users WHERE email = $1 AND role IN ('seller', 'customer')\<close>
\<close>

definition select_seller :: "string \<Rightarrow> store \<Rightarrow> user list option" where
  "select_seller email st =
     (if CHR 0x00 \<in> set email then None
      else Some (filter (\<lambda>u. u_email u = email \<and>
                  (u_role u = Some ''seller'' \<or> u_role u = Some ''customer'')) (users st)))"

text \<open>
  A JavaScript value as a parameter of a text column. A number or a boolean is sent as its
  rendering, which is short and has no zero byte; \<open>null\<close> and \<open>undefined\<close> are \<open>NULL\<close>.
\<close>

definition is_null :: "jsval \<Rightarrow> bool" where
  "is_null v = (v = JNull \<or> v = JUndefined)"

definition text_param_ok :: "jsval \<Rightarrow> bool" where
  "text_param_ok v = (case v of JStr s \<Rightarrow> CHR 0x00 \<notin> set s | _ \<Rightarrow> True)"

definition varchar_param_ok :: "nat \<Rightarrow> jsval \<Rightarrow> bool" where
  "varchar_param_ok n v = (case v of JStr s \<Rightarrow> varchar n s \<noteq> None | _ \<Rightarrow> True)"

text \<open>
  \<open>INSERT INTO products (user_id, name, description, price, category, stock, image_url)
  VALUES ($1, ..., $7) RETURNING ...\<close>. The \<open>id\<close> is the next value of the column's
  sequence; sequences are no part of the tables, so the value is a parameter, and the
  primary key rejects one that is in use. \<open>name\<close> is a \<open>VARCHAR(255) NOT NULL\<close>,
  \<open>description\<close> a \<open>TEXT NOT NULL\<close>, \<open>price\<close> a \<open>NUMERIC(12,2) NOT NULL\<close>,
  \<open>category\<close> a \<open>VARCHAR(100) NOT NULL\<close>, \<open>stock\<close> an \<open>INTEGER NOT NULL\<close> without
  any \<open>CHECK\<close>, \<open>image_url\<close> a \<open>TEXT\<close>.
\<close>

definition insert_product ::
  "int4 \<Rightarrow> int4 \<Rightarrow> jsval \<Rightarrow> jsval \<Rightarrow> jsnum \<Rightarrow> jsval \<Rightarrow> jsnum \<Rightarrow> jsval \<Rightarrow> store
     \<Rightarrow> (product \<times> store) option" where
  "insert_product new_id userId name description price category stock imageUrl st =
     (case to_numeric_12_2 price of
        None \<Rightarrow> None
      | Some pr \<Rightarrow>
          (case to_int4 stock of
             None \<Rightarrow> None
           | Some sk \<Rightarrow>
               if new_id \<notin> p_id ` set (products st) \<and> userId \<in> u_id ` set (users st) \<and>
                  \<not> is_null name \<and> varchar_param_ok 255 name \<and>
                  \<not> is_null description \<and> text_param_ok description \<and>
                  \<not> is_null category \<and> varchar_param_ok 100 category \<and>
                  text_param_ok imageUrl
               then
                 let row = \<lparr>p_id = new_id, p_user_id = userId, p_price = pr, p_stock = sk\<rparr>
                 in Some (row, st\<lparr>products := products st @ [row]\<rparr>)
               else None))"

definition CreateFailed :: "failure \<Rightarrow> response" where
  "CreateFailed e = \<lparr>status = 500, payload = ErrorDetails ''Create product failed'' e\<rparr>"

text \<open>
  \<open>app.post('/api/seller/products', ...)\<close>, on the pool and without a transaction: a
  single \<open>INSERT\<close>, which changes nothing when it is rejected.
\<close>

definition seller_create_product ::
  "host \<Rightarrow> int4 \<Rightarrow> request \<Rightarrow> store \<Rightarrow> response \<times> store \<times> statement list" where
  "seller_create_product h new_id req st =
     (case body req of
        None \<Rightarrow> (CreateFailed TypeError, st, [])
      | Some b \<Rightarrow>
          let email = b ''email'';
              name = b ''name'';
              description = b ''description'';
              price = b ''price'';
              category = b ''category'';
              stock = b ''stock'';
              imageUrl = b ''imageUrl''
          in
          (case js_or email (JStr []) of
             JStr s \<Rightarrow>
               let normEmail = toLowerCase (trim s) in
               if normEmail = [] \<or> \<not> truthy name \<or> \<not> truthy description \<or> is_null price \<or>
                  \<not> truthy category
               then (\<lparr>status = 400, payload = Error ''Missing required fields''\<rparr>, st, [])
               else
                 (case select_seller normEmail st of
                    None \<Rightarrow> (CreateFailed StoreError, st, [SELECT_user normEmail])
                  | Some [] \<Rightarrow>
                      (\<lparr>status = 404, payload = Error ''User not found''\<rparr>, st,
                       [SELECT_user normEmail])
                  | Some (u # _) \<Rightarrow>
                      let userId = u_id u;
                          insert = INSERT_product userId name description (Number h price)
                            category (Number h (js_or stock (JNum 0))) (js_or imageUrl JNull)
                      in
                      (case insert_product new_id userId name description (Number h price)
                              category (Number h (js_or stock (JNum 0))) (js_or imageUrl JNull) st of
                         None \<Rightarrow> (CreateFailed StoreError, st, [SELECT_user normEmail, insert])
                       | Some (row, st') \<Rightarrow>
                           (\<lparr>status = 201, payload = ProductCreated row\<rparr>, st',
                            [SELECT_user normEmail, insert])))
           | _ \<Rightarrow> (CreateFailed TypeError, st, [])))"

section \<open>The payment provider\<close>

text \<open>
  The configuration read from the environment, and the provider as the handlers see it:
  a \<open>fetch\<close> either rejects, with a message, or resolves to a reply with a status, a
  body text and, when the body is JSON, its document.
\<close>

record config =
  PAYPAL_BASE :: string
  PAYPAL_CLIENT_ID :: string
  PAYPAL_CLIENT_SECRET :: string

record reply =
  reply_status :: nat
  reply_body :: string
  reply_json :: "json option"

datatype fetch_result = Rejects string | Replies reply

text \<open>
  The three requests the server makes, each to the configured base URL: for a token, with
  the client id and secret; to create an order, with the bearer token and the amount that
  is sent as \<open>amt.toFixed(2)\<close>; to capture an order, with the bearer token and the
  order id that is spliced into the URL.
\<close>

datatype provider_call =
  TokenCall string string string
| CreateOrderCall string "json option" jsnum
| CaptureCall string "json option" jsval

type_synonym provider = "provider_call \<Rightarrow> fetch_result"

text \<open>\<open>resp.ok\<close>\<close>

definition ok :: "reply \<Rightarrow> bool" where
  "ok r = (200 \<le> reply_status r \<and> reply_status r \<le> 299)"

text \<open>
  \<open>data.access_token\<close>: reading a property of \<open>null\<close> throws, a missing property is
  \<open>undefined\<close> (\<open>None\<close>); where a key occurs twice the parser kept the last.
\<close>

fun access_token :: "json \<Rightarrow> failure + json option" where
  "access_token (JsonAtom JNull) = Inl TypeError"
| "access_token (JsonObject kvs) = Inr (map_of (rev kvs) ''access_token'')"
| "access_token _ = Inr None"

definition token_call :: "config \<Rightarrow> provider_call" where
  "token_call cfg = TokenCall (PAYPAL_BASE cfg) (PAYPAL_CLIENT_ID cfg) (PAYPAL_CLIENT_SECRET cfg)"

definition getPayPalAccessToken :: "config \<Rightarrow> provider \<Rightarrow> failure + json option" where
  "getPayPalAccessToken cfg net =
     (case net (token_call cfg) of
        Rejects msg \<Rightarrow> Inl (FetchError msg)
      | Replies resp \<Rightarrow>
          if \<not> ok resp then Inl (TokenFailed (reply_status resp) (reply_body resp))
          else (case reply_json resp of
                  None \<Rightarrow> Inl SyntaxError
                | Some data \<Rightarrow> access_token data))"

text \<open>\<open>(req.body || {})[k]\<close>\<close>

definition field :: "request \<Rightarrow> string \<Rightarrow> jsval" where
  "field req k = (case body req of None \<Rightarrow> JUndefined | Some b \<Rightarrow> b k)"

text \<open>
  \<open>app.post('/create-order', ...)\<close>: the response and the requests made to the
  provider, in order.
\<close>

definition create_order ::
  "host \<Rightarrow> config \<Rightarrow> provider \<Rightarrow> request \<Rightarrow> response \<times> provider_call list" where
  "create_order h cfg net req =
     (let amount = field req ''amount'';
          amt = Number h amount
      in
      if \<not> num_truthy amt \<or> js_le amt (Fin 0)
      then (\<lparr>status = 400, payload = Error ''Invalid amount''\<rparr>, [])
      else if PAYPAL_CLIENT_ID cfg = [] \<or> PAYPAL_CLIENT_SECRET cfg = []
      then (\<lparr>status = 500, payload = Error ''PayPal credentials not configured''\<rparr>, [])
      else
        (case getPayPalAccessToken cfg net of
           Inl e \<Rightarrow>
             (\<lparr>status = 500, payload = ErrorDetails ''Create order failed'' e\<rparr>,
              [token_call cfg])
         | Inr token \<Rightarrow>
             let order_call = CreateOrderCall (PAYPAL_BASE cfg) token amt in
             (case net order_call of
                Rejects msg \<Rightarrow>
                  (\<lparr>status = 500, payload = ErrorDetails ''Create order failed'' (FetchError msg)\<rparr>,
                   [token_call cfg, order_call])
              | Replies orderResp \<Rightarrow>
                  (case reply_json orderResp of
                     None \<Rightarrow>
                       (\<lparr>status = 500, payload = ErrorDetails ''Create order failed'' SyntaxError\<rparr>,
                        [token_call cfg, order_call])
                   | Some data \<Rightarrow>
                       if \<not> ok orderResp
                       then (\<lparr>status = reply_status orderResp, payload = Relay data\<rparr>,
                             [token_call cfg, order_call])
                       else (\<lparr>status = 200, payload = Relay data\<rparr>,
                             [token_call cfg, order_call])))))"

text \<open>\<open>app.post('/capture-order', ...)\<close>\<close>

definition capture_order :: "config \<Rightarrow> provider \<Rightarrow> request \<Rightarrow> response \<times> provider_call list" where
  "capture_order cfg net req =
     (let orderID = field req ''orderID'' in
      if \<not> truthy orderID
      then (\<lparr>status = 400, payload = Error ''orderID is required''\<rparr>, [])
      else if PAYPAL_CLIENT_ID cfg = [] \<or> PAYPAL_CLIENT_SECRET cfg = []
      then (\<lparr>status = 500, payload = Error ''PayPal credentials not configured''\<rparr>, [])
      else
        (case getPayPalAccessToken cfg net of
           Inl e \<Rightarrow>
             (\<lparr>status = 500, payload = ErrorDetails ''Capture order failed'' e\<rparr>,
              [token_call cfg])
         | Inr token \<Rightarrow>
             let capture_call = CaptureCall (PAYPAL_BASE cfg) token orderID in
             (case net capture_call of
                Rejects msg \<Rightarrow>
                  (\<lparr>status = 500, payload = ErrorDetails ''Capture order failed'' (FetchError msg)\<rparr>,
                   [token_call cfg, capture_call])
              | Replies capResp \<Rightarrow>
                  (case reply_json capResp of
                     None \<Rightarrow>
                       (\<lparr>status = 500, payload = ErrorDetails ''Capture order failed'' SyntaxError\<rparr>,
                        [token_call cfg, capture_call])
                   | Some data \<Rightarrow>
                       if \<not> ok capResp
                       then (\<lparr>status = reply_status capResp, payload = Relay data\<rparr>,
                             [token_call cfg, capture_call])
                       else (\<lparr>status = 200, payload = Relay data\<rparr>,
                             [token_call cfg, capture_call])))))"

section \<open>The router\<close>

text \<open>
  The routes in the order in which \<open>app.get\<close> and \<open>app.post\<close> register them. The
  router of Express 4, which \<open>app._router.handle\<close> enters, serves a request by the first
  route whose method and path match. With the default settings a path matches a route
  segment by segment: letters without regard to case, \<open>:email\<close> any segment that is not
  empty, and one slash at the end of the path is ignored. The middleware that runs before
  every route (\<open>cors\<close>, \<open>express.json\<close>) leaves a parsed body as it is.
\<close>

datatype endpoint =
  Health
| AdminUsers
| SellerOrders
| PaypalCreateOrder
| PaypalCaptureOrder
| CreateOrder
| CaptureOrder
| PublicProducts
| Purchase
| SellerProducts
| SellerCreateProduct
| RegisterSeller
| Register
| Login
| UserByEmail

definition routes :: "(http_method \<times> string \<times> endpoint) list" where
  "routes =
     [(GET, ''/api/health'', Health),
      (GET, ''/api/admin/users'', AdminUsers),
      (GET, ''/api/seller/orders'', SellerOrders),
      (POST, ''/api/paypal/create-order'', PaypalCreateOrder),
      (POST, ''/api/paypal/capture-order'', PaypalCaptureOrder),
      (POST, ''/create-order'', CreateOrder),
      (POST, ''/capture-order'', CaptureOrder),
      (GET, ''/api/products/public'', PublicProducts),
      (POST, ''/api/purchase'', Purchase),
      (GET, ''/api/seller/products'', SellerProducts),
      (POST, ''/api/seller/products'', SellerCreateProduct),
      (POST, ''/api/register-seller'', RegisterSeller),
      (POST, ''/api/register'', Register),
      (POST, ''/api/login'', Login),
      (GET, ''/api/user/:email'', UserByEmail)]"

fun segments :: "string \<Rightarrow> string list" where
  "segments [] = [[]]"
| "segments (c # cs) =
     (if c = CHR ''/'' then [] # segments cs
      else (case segments cs of seg # segs \<Rightarrow> (c # seg) # segs | [] \<Rightarrow> [[c]]))"

definition strip_slash :: "string \<Rightarrow> string" where
  "strip_slash p = (if p \<noteq> [] \<and> last p = CHR ''/'' then butlast p else p)"

definition segment_matches :: "string \<Rightarrow> string \<Rightarrow> bool" where
  "segment_matches pat seg =
     (case pat of
        c # _ \<Rightarrow> if c = CHR '':'' then seg \<noteq> [] else toLowerCase seg = pat
      | [] \<Rightarrow> seg = [])"

definition path_matches :: "string \<Rightarrow> string \<Rightarrow> bool" where
  "path_matches pat path = list_all2 segment_matches (segments pat) (segments (strip_slash path))"

definition route :: "request \<Rightarrow> endpoint option" where
  "route req =
     map_option (\<lambda>(m, pat, e). e)
       (find (\<lambda>(m, pat, e). m = req_method req \<and> path_matches pat (url req)) routes)"

text \<open>
  The payment endpoints as the router serves them. The two routes under \<open>/api/paypal\<close>
  set \<open>req.url\<close> and hand the request to the router again. \<open>None\<close> stands for a
  request that is served by another route, or by none.
\<close>

function router_handle ::
  "host \<Rightarrow> config \<Rightarrow> provider \<Rightarrow> request \<Rightarrow> (response \<times> provider_call list) option" where
  "router_handle h cfg net req =
     (case route req of
        Some PaypalCreateOrder \<Rightarrow> router_handle h cfg net (req\<lparr>url := ''/create-order''\<rparr>)
      | Some PaypalCaptureOrder \<Rightarrow> router_handle h cfg net (req\<lparr>url := ''/capture-order''\<rparr>)
      | Some CreateOrder \<Rightarrow> Some (create_order h cfg net req)
      | Some CaptureOrder \<Rightarrow> Some (capture_order cfg net req)
      | _ \<Rightarrow> None)"
  by pat_completeness auto

termination router_handle
  by (relation "measure (\<lambda>(h, cfg, net, req).
        if route req = Some PaypalCreateOrder \<or> route req = Some PaypalCaptureOrder
        then 1 else 0)")
    (auto simp: route_def routes_def path_matches_def strip_slash_def segment_matches_def
       toLowerCase_def lower_char_def split: if_splits)

section \<open>The stock invariant\<close>

text \<open>
  Every product of the store has a stock that is not negative.
\<close>

definition stock_nonneg :: "store \<Rightarrow> bool" where
  "stock_nonneg st = list_all (\<lambda>p. 0 \<le> sint (p_stock p)) (products st)"

section \<open>Example inputs\<close>

text \<open>
  A host whose string conversions accept nothing (the examples pass numbers as numbers), a
  store with one seller and two products (one priced 19.99 with 10 in stock, one priced
  9999999999.99 with 5 in stock), an object literal (the fields listed, every other field
  absent) and a \<open>POST\<close> request with such an object as its body.
\<close>

definition example_host :: host where
  "example_host = \<lparr>StringToNumber = (\<lambda>s. NaN), int4in = (\<lambda>s. None)\<rparr>"

definition example_store :: store where
  "example_store =
     \<lparr>users = [\<lparr>u_id = 1, u_email = ''seller@shop.ph'', u_role = Some ''seller''\<rparr>],
      products = [\<lparr>p_id = 7, p_user_id = 1, p_price = Numeric 1999, p_stock = 10\<rparr>,
                  \<lparr>p_id = 8, p_user_id = 1, p_price = Numeric 999999999999, p_stock = 5\<rparr>],
      orders = []\<rparr>"

definition obj :: "(string \<times> jsval) list \<Rightarrow> string \<Rightarrow> jsval" where
  "obj kvs k = (case map_of kvs k of None \<Rightarrow> JUndefined | Some v \<Rightarrow> v)"

definition post :: "string \<Rightarrow> (string \<times> jsval) list \<Rightarrow> request" where
  "post path kvs = \<lparr>req_method = POST, url = path, body = Some (obj kvs)\<rparr>"



text \<open>
  A request of the example seller to create a product with a given stock, and a payment
  provider that grants a token, creates every order and captures every order.
\<close>

definition create_product_request :: "rat \<Rightarrow> request" where
  "create_product_request n =
     post ''/api/seller/products''
       [(''email'', JStr ''Seller@Shop.ph''), (''name'', JStr ''Mug''),
        (''description'', JStr ''A mug''), (''price'', JNum 50), (''category'', JStr ''home''),
        (''stock'', JNum n)]"

definition example_config :: config where
  "example_config =
     \<lparr>PAYPAL_BASE = ''https://api-m.sandbox.paypal.com'',
      PAYPAL_CLIENT_ID = ''client'', PAYPAL_CLIENT_SECRET = ''secret''\<rparr>"

definition example_provider :: provider where
  "example_provider call =
     (case call of
        TokenCall base client secret \<Rightarrow>
          Replies \<lparr>reply_status = 200, reply_body = [],
            reply_json = Some (JsonObject [(''access_token'', JsonAtom (JStr ''A21AA''))])\<rparr>
      | CreateOrderCall base token amt \<Rightarrow>
          Replies \<lparr>reply_status = 201, reply_body = [],
            reply_json = Some (JsonObject [(''id'', JsonAtom (JStr ''5O190127'')),
              (''status'', JsonAtom (JStr ''CREATED''))])\<rparr>
      | CaptureCall base token orderID \<Rightarrow>
          Replies \<lparr>reply_status = 201, reply_body = [],
            reply_json = Some (JsonObject [(''id'', JsonAtom (JStr ''5O190127'')),
              (''status'', JsonAtom (JStr ''COMPLETED''))])\<rparr>)"

section \<open>Integers, amounts and strings\<close>



lemma sint_int4_of_int:
  "- (2 ^ 31) \<le> k \<Longrightarrow> k < 2 ^ 31 \<Longrightarrow> sint (word_of_int k :: int4) = k"
  by (simp add: sint_sbintrunc' signed_take_bit_int_eq_self)


lemma to_int4_Some:
  assumes "to_int4 n = Some w"
  shows "n = Fin (of_int (sint w))"
proof (cases n)
  case NaN
  with assms show ?thesis by (simp add: to_int4_def)
next
  case (Fin r)
  with assms have r: "r = of_int \<lfloor>r\<rfloor>" and lo: "- (2 ^ 31) \<le> \<lfloor>r\<rfloor>"
    and hi: "\<lfloor>r\<rfloor> < 2 ^ 31" and w: "w = word_of_int \<lfloor>r\<rfloor>"
    by (auto simp: to_int4_def split: if_splits)
  from lo hi have "sint (word_of_int \<lfloor>r\<rfloor> :: int4) = \<lfloor>r\<rfloor>" by (rule sint_int4_of_int)
  with r w Fin show ?thesis by (simp del: of_int_sint)
qed









lemma trim_Nil: "trim [] = []"
  by (simp add: trim_def)









section \<open>The statements of a purchase\<close>



lemma insert_order_Some:
  assumes "insert_order h productId email qty t st = Some (row, st')"
  obtains i e q t' where "param_int4 h productId = Some (Some i)"
    and "varchar 255 email = Some e" and "to_int4 qty = Some q"
    and "to_numeric_12_2 t = Some t'" and "0 < sint q"
    and "row = \<lparr>o_product_id = i, o_buyer_email = e, o_quantity = q, o_total_price = t'\<rparr>"
    and "st' = st\<lparr>orders := orders st @ [row]\<rparr>"
  using assms
  by (auto simp: insert_order_def Let_def split: option.splits if_splits)

lemma update_stock_Some:
  assumes "update_stock h n productId st = Some st'"
  shows "\<exists>w. to_int4 n = Some w \<and> orders st' = orders st \<and> users st' = users st \<and>
    (\<forall>x\<in>set (products st'). x \<in> set (products st) \<or> p_stock x = w)"
proof -
  from assms obtain w where w: "to_int4 n = Some w"
    by (auto simp: update_stock_def split: option.splits)
  from assms w consider "st' = st"
    | i where "st' = st\<lparr>products :=
        map (\<lambda>p. if p_id p = i then p\<lparr>p_stock := w\<rparr> else p) (products st)\<rparr>"
    by (auto simp: update_stock_def split: option.splits)
  then show ?thesis
  proof cases
    case 1
    with w show ?thesis by simp
  next
    case 2
    with w show ?thesis by auto
  qed
qed

lemma purchase_blank_email:
  assumes "body req = Some b" and "js_or (b ''buyerEmail'') (JStr []) = JStr s" and "trim s = []"
  shows "purchase h req st = (InvalidInput, st, [])"
  using assms by (simp add: purchase_def toLowerCase_def Let_def)

text \<open>
  Every run of the handler either leaves the store as it was, with a status other than
  201, or went through the whole transaction.
\<close>

lemma purchase_cases:
  assumes "purchase h req st = (resp, st', sent)"
  shows "(st' = st \<and> status resp \<noteq> 201) \<or>
     (\<exists>b s p ps r st1 row. body req = Some b \<and>
        js_or (b ''buyerEmail'') (JStr []) = JStr s \<and>
        select_product h (b ''productId'') st = Some (p # ps) \<and>
        Number h (js_or (b ''quantity'') (JNum 1)) = Fin r \<and> 0 < r \<and>
        r \<le> of_int (sint (p_stock p)) \<and>
        update_stock h (Fin (of_int (sint (p_stock p)) - r)) (b ''productId'') st = Some st1 \<and>
        insert_order h (b ''productId'') (toLowerCase (trim s)) (Fin r)
          (js_times (js_of_numeric (p_price p)) (Fin r)) st1 = Some (row, st') \<and>
        resp = \<lparr>status = 201, payload = OrderCreated row (Fin (of_int (sint (p_stock p)) - r))\<rparr>)"
proof (cases "body req")
  case None
  with assms show ?thesis by (auto simp: purchase_def PurchaseFailed_def)
next
  case (Some b)
  show ?thesis
  proof (cases "Number h (js_or (b ''quantity'') (JNum 1))")
    case NaN
    with Some assms show ?thesis
      by (auto simp: purchase_def PurchaseFailed_def InvalidInput_def Let_def split: jsval.splits)
  next
    case (Fin r)
    with Some assms show ?thesis
      by (auto simp: purchase_def PurchaseFailed_def InvalidInput_def NotFound_def
          InsufficientStock_def Let_def js_of_int4_def
          simp del: of_int_sint
          split: jsval.splits option.splits list.splits if_splits)
  qed
qed

section \<open>A purchase that succeeds\<close>




section \<open>Insufficient stock\<close>




section \<open>Invalid input\<close>

text \<open>
  C4, as amended. A request whose \<open>buyerEmail\<close> is absent, falsy or blank, or whose
  \<open>quantity\<close> is a negative number (beside a \<open>buyerEmail\<close> that is a string), is refused
  with \<open>400 Missing required fields\<close> before any statement is sent, and the store is
  untouched. A \<open>quantity\<close> that is absent or \<open>null\<close> is taken as 1: the request is served
  as the same request with \<open>quantity: 1\<close>.
\<close>

theorem purchase_invalid_input:
  assumes b: "body req = Some b"
  shows "(\<not> truthy (b ''buyerEmail'') \<or>
          (\<exists>s. b ''buyerEmail'' = JStr s \<and>
             (trim s = [] \<or> (\<exists>r. b ''quantity'' = JNum r \<and> r < 0)))
          \<longrightarrow> purchase h req st = (InvalidInput, st, [])) \<and>
         (is_null (b ''quantity'')
          \<longrightarrow> purchase h req st = purchase h (req\<lparr>body := Some (b(''quantity'' := JNum 1))\<rparr>) st)"
proof (intro conjI impI)
  assume "\<not> truthy (b ''buyerEmail'') \<or>
          (\<exists>s. b ''buyerEmail'' = JStr s \<and>
             (trim s = [] \<or> (\<exists>r. b ''quantity'' = JNum r \<and> r < 0)))"
  then consider
      (falsy) "\<not> truthy (b ''buyerEmail'')"
    | (blank) s where "b ''buyerEmail'' = JStr s" "trim s = []"
    | (negative) s r where "b ''buyerEmail'' = JStr s" "b ''quantity'' = JNum r" "r < 0"
    by blast
  then show "purchase h req st = (InvalidInput, st, [])"
  proof cases
    case falsy
    then have "js_or (b ''buyerEmail'') (JStr []) = JStr []" by (simp add: js_or_def)
    with b show ?thesis by (rule purchase_blank_email) (rule trim_Nil)
  next
    case blank
    then have "js_or (b ''buyerEmail'') (JStr []) = JStr s" by (simp add: js_or_def)
    with b show ?thesis using blank(2) by (rule purchase_blank_email)
  next
    case negative
    then have e: "js_or (b ''buyerEmail'') (JStr []) = JStr s" by (simp add: js_or_def)
    from negative have "Number h (js_or (b ''quantity'') (JNum 1)) = Fin r"
      by (simp add: js_or_def)
    with b e negative(3) show ?thesis by (simp add: purchase_def Let_def)
  qed
next
  assume "is_null (b ''quantity'')"
  then have absent: "js_or (b ''quantity'') (JNum 1) = JNum 1"
    by (auto simp: is_null_def js_or_def)
  have given: "js_or (JNum 1) (JNum 1) = JNum 1"
    by (simp add: js_or_def)
  from b show "purchase h req st = purchase h (req\<lparr>body := Some (b(''quantity'' := JNum 1))\<rparr>) st"
    by (simp add: purchase_def absent given)
qed

text \<open>
  The theorem at three requests for the first example product: without a buyer email,
  with quantity \<open>-2\<close>, and without a quantity.
\<close>

theorem purchase_invalid_input_witness:
  "purchase example_host
     (post ''/api/purchase'' [(''productId'', JNum 7), (''quantity'', JNum 3)])
     example_store = (InvalidInput, example_store, []) \<and>
   purchase example_host
     (post ''/api/purchase''
        [(''productId'', JNum 7), (''buyerEmail'', JStr ''a@b.com''), (''quantity'', JNum (- 2))])
     example_store = (InvalidInput, example_store, []) \<and>
   purchase example_host
     (post ''/api/purchase'' [(''productId'', JNum 7), (''buyerEmail'', JStr ''a@b.com'')])
     example_store =
   purchase example_host
     (post ''/api/purchase''
        [(''productId'', JNum 7), (''buyerEmail'', JStr ''a@b.com'')]
      \<lparr>body := Some ((obj [(''productId'', JNum 7), (''buyerEmail'', JStr ''a@b.com'')])
         (''quantity'' := JNum 1))\<rparr>)
     example_store"
  using
    purchase_invalid_input [of "post ''/api/purchase'' [(''productId'', JNum 7), (''quantity'', JNum 3)]"
      "obj [(''productId'', JNum 7), (''quantity'', JNum 3)]" example_host example_store]
    purchase_invalid_input [of "post ''/api/purchase''
        [(''productId'', JNum 7), (''buyerEmail'', JStr ''a@b.com''), (''quantity'', JNum (- 2))]"
      "obj [(''productId'', JNum 7), (''buyerEmail'', JStr ''a@b.com''), (''quantity'', JNum (- 2))]"
      example_host example_store]
    purchase_invalid_input [of "post ''/api/purchase''
        [(''productId'', JNum 7), (''buyerEmail'', JStr ''a@b.com'')]"
      "obj [(''productId'', JNum 7), (''buyerEmail'', JStr ''a@b.com'')]"
      example_host example_store]
  by (simp add: post_def obj_def is_null_def)

text \<open>
  C4 as it was stated fails: a request without a quantity is no invalid input, it buys
  one piece.
\<close>

theorem purchase_invalid_input_counterexample:
  "purchase example_host
     (post ''/api/purchase'' [(''productId'', JNum 7), (''buyerEmail'', JStr ''a@b.com'')])
     example_store =
   (\<lparr>status = 201,
     payload = OrderCreated
       \<lparr>o_product_id = 7, o_buyer_email = ''a@b.com'', o_quantity = 1,
        o_total_price = Numeric 1999\<rparr> (Fin 9)\<rparr>,
    example_store\<lparr>
      products := [\<lparr>p_id = 7, p_user_id = 1, p_price = Numeric 1999, p_stock = 9\<rparr>,
                   \<lparr>p_id = 8, p_user_id = 1, p_price = Numeric 999999999999, p_stock = 5\<rparr>],
      orders := [\<lparr>o_product_id = 7, o_buyer_email = ''a@b.com'', o_quantity = 1,
        o_total_price = Numeric 1999\<rparr>]\<rparr>,
    [BEGIN, SELECT_product_FOR_UPDATE (JNum 7), UPDATE_product_stock (Fin 9) (JNum 7),
     INSERT_order (JNum 7) ''a@b.com'' (Fin 1) (Fin (1999 / 100)), COMMIT])"
proof -
  have e: "toLowerCase (trim ''a@b.com'') = ''a@b.com''"
    by code_simp
  have t: "to_numeric_12_2 (Fin (1999 / 100)) = Some (Numeric 1999)"
    by code_simp
  show ?thesis
    by (simp add: purchase_def post_def obj_def js_or_def e t select_product_def
        example_store_def to_int4_def js_of_int4_def update_stock_def insert_order_def
        varchar_def Let_def)
qed

section \<open>The stock never goes negative\<close>

lemma insert_product_Some:
  assumes "insert_product new_id userId name description price category stock imageUrl st =
    Some (row, st')"
  shows "\<exists>sk. to_int4 stock = Some sk \<and> p_stock row = sk \<and>
    st' = st\<lparr>products := products st @ [row]\<rparr>"
  using assms
  by (auto simp: insert_product_def Let_def split: option.splits if_splits)

lemma seller_create_product_cases:
  assumes "seller_create_product h new_id req st = (resp, st', sent)"
  shows "st' = st \<or>
    (\<exists>b row. body req = Some b \<and>
       to_int4 (Number h (js_or (b ''stock'') (JNum 0))) = Some (p_stock row) \<and>
       st' = st\<lparr>products := products st @ [row]\<rparr>)"
proof (cases "body req")
  case None
  with assms show ?thesis by (simp add: seller_create_product_def)
next
  case (Some b)
  with assms show ?thesis
    by (auto simp: seller_create_product_def Let_def dest!: insert_product_Some
        split: jsval.splits option.splits list.splits if_splits)
qed

lemma purchase_keeps_stock_nonneg:
  assumes inv: "stock_nonneg st"
  shows "stock_nonneg (fst (snd (purchase h req st)))"
proof -
  obtain resp st' sent where run: "purchase h req st = (resp, st', sent)"
    by (cases "purchase h req st") auto
  from purchase_cases [OF run] have "stock_nonneg st'"
  proof (elim disjE exE conjE)
    assume "st' = st"
    with inv show ?thesis by simp
  next
    fix b s and p :: product and ps r st1 row
    assume le: "r \<le> of_int (sint (p_stock p))"
      and upd: "update_stock h (Fin (of_int (sint (p_stock p)) - r)) (b ''productId'') st = Some st1"
      and ins: "insert_order h (b ''productId'') (toLowerCase (trim s)) (Fin r)
          (js_times (js_of_numeric (p_price p)) (Fin r)) st1 = Some (row, st')"
    from update_stock_Some [OF upd] obtain w
      where w: "to_int4 (Fin (of_int (sint (p_stock p)) - r)) = Some w"
        and rows: "\<forall>x\<in>set (products st1). x \<in> set (products st) \<or> p_stock x = w"
      by blast
    from to_int4_Some [OF w] have "(of_int (sint w) :: rat) = of_int (sint (p_stock p)) - r"
      by simp
    with le have "(0 :: rat) \<le> of_int (sint w)" by simp
    then have "0 \<le> sint w" by (simp only: of_int_0_le_iff)
    with rows inv have "stock_nonneg st1"
      by (auto simp: stock_nonneg_def list_all_iff)
    moreover from ins have "products st' = products st1"
      by (rule insert_order_Some) simp
    ultimately show ?thesis by (simp add: stock_nonneg_def)
  qed
  with run show ?thesis by simp
qed

lemma example_store_nonneg: "stock_nonneg example_store"
  by (simp add: stock_nonneg_def example_store_def)

text \<open>
  C6, as amended. From a store in which no stock is negative, a purchase request leads
  to such a store again, whatever the request; a request to create a product does so when
  the stock it gives, \<open>Number(stock || 0)\<close>, is not negative.
\<close>

theorem stock_stays_nonnegative:
  assumes inv: "stock_nonneg st"
  shows "stock_nonneg (fst (snd (purchase h req st))) \<and>
    ((\<forall>b r. body req' = Some b \<longrightarrow> Number h (js_or (b ''stock'') (JNum 0)) = Fin r \<longrightarrow> 0 \<le> r)
     \<longrightarrow> stock_nonneg (fst (snd (seller_create_product h new_id req' st))))"
proof (intro conjI impI)
  from inv show "stock_nonneg (fst (snd (purchase h req st)))"
    by (rule purchase_keeps_stock_nonneg)
next
  assume given: "\<forall>b r. body req' = Some b \<longrightarrow>
    Number h (js_or (b ''stock'') (JNum 0)) = Fin r \<longrightarrow> 0 \<le> r"
  obtain resp st' sent where run: "seller_create_product h new_id req' st = (resp, st', sent)"
    by (cases "seller_create_product h new_id req' st") auto
  from seller_create_product_cases [OF run] have "stock_nonneg st'"
  proof (elim disjE exE conjE)
    assume "st' = st"
    with inv show ?thesis by simp
  next
    fix b and row :: product
    assume b: "body req' = Some b"
      and sk: "to_int4 (Number h (js_or (b ''stock'') (JNum 0))) = Some (p_stock row)"
      and st': "st' = st\<lparr>products := products st @ [row]\<rparr>"
    from to_int4_Some [OF sk] b given have "(0 :: rat) \<le> of_int (sint (p_stock row))"
      by blast
    then have "0 \<le> sint (p_stock row)" by (simp only: of_int_0_le_iff)
    with inv st' show ?thesis by (simp add: stock_nonneg_def)
  qed
  with run show "stock_nonneg (fst (snd (seller_create_product h new_id req' st)))" by simp
qed

text \<open>
  The theorem at the example store, for a purchase of 3 and a new product with a stock
  of 4.
\<close>

theorem stock_stays_nonnegative_witness:
  "stock_nonneg example_store \<and>
   stock_nonneg (fst (snd (purchase example_host
     (post ''/api/purchase''
        [(''productId'', JNum 7), (''buyerEmail'', JStr ''a@b.com''), (''quantity'', JNum 3)])
     example_store))) \<and>
   stock_nonneg (fst (snd (seller_create_product example_host 9 (create_product_request 4)
     example_store)))"
proof -
  have "\<forall>b r. body (create_product_request 4) = Some b \<longrightarrow>
      Number example_host (js_or (b ''stock'') (JNum 0)) = Fin r \<longrightarrow> 0 \<le> r"
    by (auto simp: create_product_request_def post_def obj_def js_or_def)
  with stock_stays_nonnegative [OF example_store_nonneg] example_store_nonneg
  show ?thesis by blast
qed

text \<open>
  C6 as it was stated fails: neither the handler nor the \<open>products\<close> table checks the
  stock of a new product, so a request with \<open>stock: -5\<close> is answered with 201 and stores
  a product whose stock is \<open>-5\<close>.
\<close>

theorem stock_stays_nonnegative_counterexample:
  "stock_nonneg example_store \<and>
   seller_create_product example_host 9 (create_product_request (- 5)) example_store =
     (\<lparr>status = 201,
       payload = ProductCreated
         \<lparr>p_id = 9, p_user_id = 1, p_price = Numeric 5000, p_stock = - 5\<rparr>\<rparr>,
      example_store\<lparr>products := products example_store @
        [\<lparr>p_id = 9, p_user_id = 1, p_price = Numeric 5000, p_stock = - 5\<rparr>]\<rparr>,
      [SELECT_user ''seller@shop.ph'',
       INSERT_product 1 (JStr ''Mug'') (JStr ''A mug'') (Fin 50) (JStr ''home'') (Fin (- 5))
         JNull]) \<and>
   \<not> stock_nonneg (example_store\<lparr>products := products example_store @
        [\<lparr>p_id = 9, p_user_id = 1, p_price = Numeric 5000, p_stock = - 5\<rparr>]\<rparr>)"
proof -
  have e: "toLowerCase (trim ''Seller@Shop.ph'') = ''seller@shop.ph''"
    by code_simp
  have t: "to_numeric_12_2 (Fin 50) = Some (Numeric 5000)"
    by code_simp
  have k: "to_int4 (Fin (- 5)) = Some (- 5)"
    by (simp add: to_int4_def)
  have "seller_create_product example_host 9 (create_product_request (- 5)) example_store =
     (\<lparr>status = 201,
       payload = ProductCreated
         \<lparr>p_id = 9, p_user_id = 1, p_price = Numeric 5000, p_stock = - 5\<rparr>\<rparr>,
      example_store\<lparr>products := products example_store @
        [\<lparr>p_id = 9, p_user_id = 1, p_price = Numeric 5000, p_stock = - 5\<rparr>]\<rparr>,
      [SELECT_user ''seller@shop.ph'',
       INSERT_product 1 (JStr ''Mug'') (JStr ''A mug'') (Fin 50) (JStr ''home'') (Fin (- 5))
         JNull])"
    by (simp add: seller_create_product_def create_product_request_def post_def obj_def
        js_or_def e t k select_seller_def example_store_def insert_product_def is_null_def
        varchar_param_ok_def text_param_ok_def varchar_def Let_def)
  moreover have "\<not> stock_nonneg (example_store\<lparr>products := products example_store @
        [\<lparr>p_id = 9, p_user_id = 1, p_price = Numeric 5000, p_stock = - 5\<rparr>]\<rparr>)"
    by (simp add: stock_nonneg_def)
  ultimately show ?thesis using example_store_nonneg by simp
qed

section \<open>An unknown product\<close>




section \<open>The buyer email is normalised\<close>




section \<open>A payment order needs a positive amount\<close>

text \<open>
  C9. When \<open>Number(amount)\<close> is \<open>NaN\<close> (the amount is absent or is a string that is no
  number) or is a number that is not positive, \<open>POST /create-order\<close> answers
  \<open>400 Invalid amount\<close> and makes no request to the payment provider: neither for a
  token nor to create the order.
\<close>

theorem create_order_invalid_amount:
  assumes "Number h (field req ''amount'') = NaN \<or>
    (\<exists>r. Number h (field req ''amount'') = Fin r \<and> r \<le> 0)"
  shows "create_order h cfg net req = (\<lparr>status = 400, payload = Error ''Invalid amount''\<rparr>, [])"
  using assms by (auto simp: create_order_def Let_def)

text \<open>
  The theorem at the amounts \<open>-5\<close> and \<open>"ten"\<close>; for comparison, the amount 150 leads
  to both requests to the provider.
\<close>

theorem create_order_invalid_amount_witness:
  "create_order example_host example_config example_provider
     (post ''/create-order'' [(''amount'', JNum (- 5))]) =
     (\<lparr>status = 400, payload = Error ''Invalid amount''\<rparr>, []) \<and>
   create_order example_host example_config example_provider
     (post ''/create-order'' [(''amount'', JStr ''ten'')]) =
     (\<lparr>status = 400, payload = Error ''Invalid amount''\<rparr>, []) \<and>
   create_order example_host example_config example_provider
     (post ''/create-order'' [(''amount'', JNum 150)]) =
     (\<lparr>status = 200,
       payload = Relay (JsonObject [(''id'', JsonAtom (JStr ''5O190127'')),
         (''status'', JsonAtom (JStr ''CREATED''))])\<rparr>,
      [token_call example_config,
       CreateOrderCall ''https://api-m.sandbox.paypal.com''
         (Some (JsonAtom (JStr ''A21AA''))) (Fin 150)])"
proof -
  have "create_order example_host example_config example_provider
     (post ''/create-order'' [(''amount'', JNum (- 5))]) =
     (\<lparr>status = 400, payload = Error ''Invalid amount''\<rparr>, [])"
    by (rule create_order_invalid_amount) (simp add: field_def post_def obj_def)
  moreover have "create_order example_host example_config example_provider
     (post ''/create-order'' [(''amount'', JStr ''ten'')]) =
     (\<lparr>status = 400, payload = Error ''Invalid amount''\<rparr>, [])"
    by (rule create_order_invalid_amount)
      (simp add: field_def post_def obj_def example_host_def)
  moreover have "create_order example_host example_config example_provider
     (post ''/create-order'' [(''amount'', JNum 150)]) =
     (\<lparr>status = 200,
       payload = Relay (JsonObject [(''id'', JsonAtom (JStr ''5O190127'')),
         (''status'', JsonAtom (JStr ''CREATED''))])\<rparr>,
      [token_call example_config,
       CreateOrderCall ''https://api-m.sandbox.paypal.com''
         (Some (JsonAtom (JStr ''A21AA''))) (Fin 150)])"
    by (simp add: create_order_def field_def post_def obj_def getPayPalAccessToken_def
        token_call_def example_config_def example_provider_def ok_def Let_def)
  ultimately show ?thesis by simp
qed

section \<open>The routes under /api/paypal\<close>

lemma route_alias_create:
  "route (req\<lparr>req_method := POST, url := ''/api/paypal/create-order''\<rparr>) = Some PaypalCreateOrder"
  by (simp add: route_def routes_def path_matches_def strip_slash_def segment_matches_def
      toLowerCase_def lower_char_def)

lemma route_alias_capture:
  "route (req\<lparr>req_method := POST, url := ''/api/paypal/capture-order''\<rparr>) = Some PaypalCaptureOrder"
  by (simp add: route_def routes_def path_matches_def strip_slash_def segment_matches_def
      toLowerCase_def lower_char_def)

lemma route_root_create:
  "route (req\<lparr>req_method := POST, url := ''/create-order''\<rparr>) = Some CreateOrder"
  by (simp add: route_def routes_def path_matches_def strip_slash_def segment_matches_def
      toLowerCase_def lower_char_def)

lemma route_root_capture:
  "route (req\<lparr>req_method := POST, url := ''/capture-order''\<rparr>) = Some CaptureOrder"
  by (simp add: route_def routes_def path_matches_def strip_slash_def segment_matches_def
      toLowerCase_def lower_char_def)

lemma handle_root_create:
  "router_handle h cfg net (req\<lparr>req_method := POST, url := ''/create-order''\<rparr>) =
     Some (create_order h cfg net (req\<lparr>req_method := POST, url := ''/create-order''\<rparr>))"
  by (subst router_handle.simps) (simp only: route_root_create option.case endpoint.case)

lemma handle_root_capture:
  "router_handle h cfg net (req\<lparr>req_method := POST, url := ''/capture-order''\<rparr>) =
     Some (capture_order cfg net (req\<lparr>req_method := POST, url := ''/capture-order''\<rparr>))"
  by (subst router_handle.simps) (simp only: route_root_capture option.case endpoint.case)

text \<open>
  C10. For every request (every body, every provider and configuration), the router
  serves \<open>POST /api/paypal/create-order\<close> as it serves \<open>POST /create-order\<close>, and
  \<open>POST /api/paypal/capture-order\<close> as it serves \<open>POST /capture-order\<close>: the same
  response and the same requests to the provider, which are those of the handlers
  \<open>create_order\<close> and \<open>capture_order\<close>.
\<close>

theorem paypal_aliases_equivalent:
  "router_handle h cfg net (req\<lparr>req_method := POST, url := ''/api/paypal/create-order''\<rparr>) =
     router_handle h cfg net (req\<lparr>req_method := POST, url := ''/create-order''\<rparr>) \<and>
   router_handle h cfg net (req\<lparr>req_method := POST, url := ''/api/paypal/capture-order''\<rparr>) =
     router_handle h cfg net (req\<lparr>req_method := POST, url := ''/capture-order''\<rparr>) \<and>
   router_handle h cfg net (req\<lparr>req_method := POST, url := ''/create-order''\<rparr>) =
     Some (create_order h cfg net (req\<lparr>req_method := POST, url := ''/create-order''\<rparr>)) \<and>
   router_handle h cfg net (req\<lparr>req_method := POST, url := ''/capture-order''\<rparr>) =
     Some (capture_order cfg net (req\<lparr>req_method := POST, url := ''/capture-order''\<rparr>))"
proof (intro conjI)
  have "router_handle h cfg net (req\<lparr>req_method := POST, url := ''/api/paypal/create-order''\<rparr>) =
     router_handle h cfg net
       (req\<lparr>req_method := POST, url := ''/api/paypal/create-order''\<rparr>\<lparr>url := ''/create-order''\<rparr>)"
    by (subst router_handle.simps) (simp only: route_alias_create option.case endpoint.case)
  then show "router_handle h cfg net (req\<lparr>req_method := POST, url := ''/api/paypal/create-order''\<rparr>) =
     router_handle h cfg net (req\<lparr>req_method := POST, url := ''/create-order''\<rparr>)"
    by (simp del: router_handle.simps)
  have "router_handle h cfg net (req\<lparr>req_method := POST, url := ''/api/paypal/capture-order''\<rparr>) =
     router_handle h cfg net
       (req\<lparr>req_method := POST, url := ''/api/paypal/capture-order''\<rparr>\<lparr>url := ''/capture-order''\<rparr>)"
    by (subst router_handle.simps) (simp only: route_alias_capture option.case endpoint.case)
  then show "router_handle h cfg net (req\<lparr>req_method := POST, url := ''/api/paypal/capture-order''\<rparr>) =
     router_handle h cfg net (req\<lparr>req_method := POST, url := ''/capture-order''\<rparr>)"
    by (simp del: router_handle.simps)
  show "router_handle h cfg net (req\<lparr>req_method := POST, url := ''/create-order''\<rparr>) =
     Some (create_order h cfg net (req\<lparr>req_method := POST, url := ''/create-order''\<rparr>))"
    by (rule handle_root_create)
  show "router_handle h cfg net (req\<lparr>req_method := POST, url := ''/capture-order''\<rparr>) =
     Some (capture_order cfg net (req\<lparr>req_method := POST, url := ''/capture-order''\<rparr>))"
    by (rule handle_root_capture)
qed

text \<open>
  The theorem at an order of 150 and at the capture of an order, sent to the routes under
  \<open>/api/paypal\<close>.
\<close>

theorem paypal_aliases_equivalent_witness:
  "router_handle example_host example_config example_provider
     (post ''/api/paypal/create-order'' [(''amount'', JNum 150)]) =
   Some (\<lparr>status = 200,
       payload = Relay (JsonObject [(''id'', JsonAtom (JStr ''5O190127'')),
         (''status'', JsonAtom (JStr ''CREATED''))])\<rparr>,
      [token_call example_config,
       CreateOrderCall ''https://api-m.sandbox.paypal.com''
         (Some (JsonAtom (JStr ''A21AA''))) (Fin 150)]) \<and>
   router_handle example_host example_config example_provider
     (post ''/api/paypal/capture-order'' [(''orderID'', JStr ''5O190127'')]) =
   Some (\<lparr>status = 200,
       payload = Relay (JsonObject [(''id'', JsonAtom (JStr ''5O190127'')),
         (''status'', JsonAtom (JStr ''COMPLETED''))])\<rparr>,
      [token_call example_config,
       CaptureCall ''https://api-m.sandbox.paypal.com''
         (Some (JsonAtom (JStr ''A21AA''))) (JStr ''5O190127'')])"
proof -
  have create: "create_order example_host example_config example_provider
      (post ''/create-order'' [(''amount'', JNum 150)]) =
     (\<lparr>status = 200,
       payload = Relay (JsonObject [(''id'', JsonAtom (JStr ''5O190127'')),
         (''status'', JsonAtom (JStr ''CREATED''))])\<rparr>,
      [token_call example_config,
       CreateOrderCall ''https://api-m.sandbox.paypal.com''
         (Some (JsonAtom (JStr ''A21AA''))) (Fin 150)])"
    by (simp add: create_order_def field_def post_def obj_def getPayPalAccessToken_def
        token_call_def example_config_def example_provider_def ok_def Let_def)
  have capture: "capture_order example_config example_provider
      (post ''/capture-order'' [(''orderID'', JStr ''5O190127'')]) =
     (\<lparr>status = 200,
       payload = Relay (JsonObject [(''id'', JsonAtom (JStr ''5O190127'')),
         (''status'', JsonAtom (JStr ''COMPLETED''))])\<rparr>,
      [token_call example_config,
       CaptureCall ''https://api-m.sandbox.paypal.com''
         (Some (JsonAtom (JStr ''A21AA''))) (JStr ''5O190127'')])"
    by (simp add: capture_order_def field_def post_def obj_def getPayPalAccessToken_def
        token_call_def example_config_def example_provider_def ok_def Let_def)
  have "post ''/api/paypal/create-order'' [(''amount'', JNum 150)] =
      (post ''/create-order'' [(''amount'', JNum 150)])
        \<lparr>req_method := POST, url := ''/api/paypal/create-order''\<rparr>"
    and "post ''/create-order'' [(''amount'', JNum 150)] =
      (post ''/create-order'' [(''amount'', JNum 150)])
        \<lparr>req_method := POST, url := ''/create-order''\<rparr>"
    and "post ''/api/paypal/capture-order'' [(''orderID'', JStr ''5O190127'')] =
      (post ''/capture-order'' [(''orderID'', JStr ''5O190127'')])
        \<lparr>req_method := POST, url := ''/api/paypal/capture-order''\<rparr>"
    and "post ''/capture-order'' [(''orderID'', JStr ''5O190127'')] =
      (post ''/capture-order'' [(''orderID'', JStr ''5O190127'')])
        \<lparr>req_method := POST, url := ''/capture-order''\<rparr>"
    by (simp_all add: post_def)
  with create capture
    paypal_aliases_equivalent [of example_host example_config example_provider
      "post ''/create-order'' [(''amount'', JNum 150)]"]
    paypal_aliases_equivalent [of example_host example_config example_provider
      "post ''/capture-order'' [(''orderID'', JStr ''5O190127'')]"]
  show ?thesis by metis
qed

end
